theory Spec2Isabelle
  imports Complex_Main "HOL-Library.Char_ord" "HOL-Library.List_Lexorder"
begin

section \<open>The NASA POWER proxy endpoint of server.py\<close>

text \<open>
  The handler \<^verbatim>\<open>get_nasa_power_data\<close> of \<^verbatim>\<open>server.py\<close> is one Python function. It is
  embedded stage by stage, in the order of the source: reading the query (lines 27-40),
  the outbound call (lines 61-74), the shape checks on the payload (lines 81-118), the
  per-date validation loop (lines 134-202) and the reduction to averages (lines 209-243).
  Every \<^verbatim>\<open>print\<close> is dropped: it has no effect on the response.
\<close>

subsection \<open>Python floats\<close>

text \<open>
  A Python float is a finite double, one of the two infinities, or not-a-number. A finite
  double is represented by the real number it denotes; comparison of doubles is then the
  comparison of reals, and every comparison with not-a-number is false.
\<close>

datatype pyfloat = Fin real | PInf | NInf | NaN

fun flt :: "pyfloat \<Rightarrow> pyfloat \<Rightarrow> bool" where
  "flt (Fin a) (Fin b) = (a < b)"
| "flt (Fin a) PInf = True"
| "flt NInf (Fin b) = True"
| "flt NInf PInf = True"
| "flt _ _ = False"

fun feq :: "pyfloat \<Rightarrow> pyfloat \<Rightarrow> bool" where
  "feq (Fin a) (Fin b) = (a = b)"
| "feq PInf PInf = True"
| "feq NInf NInf = True"
| "feq _ _ = False"

definition fle :: "pyfloat \<Rightarrow> pyfloat \<Rightarrow> bool" where
  "fle a b = (flt a b \<or> feq a b)"

text \<open>
  Every arithmetic operation on doubles returns the exact result rounded to the nearest
  double, a tie going to the double with the even significand, and a result beyond the
  largest double becoming an infinity. \<open>round_double\<close> is that rounding: \<open>binade a\<close>
  is the exponent \<open>e\<close> with \<open>2 ^ e \<le> a < 2 ^ (e + 1)\<close>, doubles of that size are the
  multiples of \<open>2 ^ (e - 52)\<close>, and below \<open>2 ^ - 1022\<close> the multiples of
  \<open>2 ^ - 1074\<close>.
\<close>

definition round_half_even :: "real \<Rightarrow> int" where
  "round_half_even x =
     (let f = \<lfloor>x\<rfloor>; d = x - of_int f
      in if d < 1 / 2 then f else if d > 1 / 2 then f + 1 else if even f then f else f + 1)"

function ilog2 :: "int \<Rightarrow> int" where
  "ilog2 n = (if n < 2 then 0 else 1 + ilog2 (n div 2))"
  by pat_completeness auto
termination
  by (relation "measure nat") auto

definition clog2 :: "int \<Rightarrow> int" where
  "clog2 n = (if n \<le> 1 then 0 else 1 + ilog2 (n - 1))"

definition binade :: "real \<Rightarrow> int" where
  "binade a = (if 1 \<le> a then ilog2 \<lfloor>a\<rfloor> else - clog2 \<lceil>1 / a\<rceil>)"

definition pow2 :: "int \<Rightarrow> real" where
  "pow2 k = (if 0 \<le> k then 2 ^ nat k else 1 / 2 ^ nat (- k))"

definition round_double :: "real \<Rightarrow> pyfloat" where
  "round_double x =
     (if x = 0 then Fin 0
      else let a = \<bar>x\<bar>;
               q = pow2 (max (binade a) (- 1022) - 52);
               r = of_int (round_half_even (a / q)) * q
           in if pow2 1024 \<le> r then (if x < 0 then NInf else PInf)
              else Fin (if x < 0 then - r else r))"

fun fadd :: "pyfloat \<Rightarrow> pyfloat \<Rightarrow> pyfloat" where
  "fadd (Fin a) (Fin b) = round_double (a + b)"
| "fadd NaN _ = NaN"
| "fadd _ NaN = NaN"
| "fadd PInf NInf = NaN"
| "fadd NInf PInf = NaN"
| "fadd PInf _ = PInf"
| "fadd _ PInf = PInf"
| "fadd NInf _ = NInf"
| "fadd _ NInf = NInf"

fun fsub :: "pyfloat \<Rightarrow> pyfloat \<Rightarrow> pyfloat" where
  "fsub (Fin a) (Fin b) = round_double (a - b)"
| "fsub NaN _ = NaN"
| "fsub _ NaN = NaN"
| "fsub PInf PInf = NaN"
| "fsub NInf NInf = NaN"
| "fsub PInf _ = PInf"
| "fsub _ PInf = NInf"
| "fsub NInf _ = NInf"
| "fsub _ NInf = PInf"

datatype exn = TypeError | ValueError | OverflowError | AttributeError | ZeroDivisionError

text \<open>
  \<^verbatim>\<open>x / len(xs)\<close>: a float divided by a list length, which is converted to a float
  exactly; Python raises on a zero divisor.
\<close>

fun fdiv_len :: "pyfloat \<Rightarrow> nat \<Rightarrow> exn + pyfloat" where
  "fdiv_len x 0 = Inl ZeroDivisionError"
| "fdiv_len (Fin a) n = Inr (round_double (a / real n))"
| "fdiv_len x n = Inr x"

text \<open>
  \<^verbatim>\<open>sum(xs)\<close> starts from the integer 0 and adds from the left, one rounded addition
  per element. (CPython from 3.12 on also carries a compensation term through the
  additions of floats; that variant is not modelled.)
\<close>

definition py_sum :: "pyfloat list \<Rightarrow> pyfloat" where
  "py_sum xs = foldl fadd (Fin 0) xs"

text \<open>
  \<^verbatim>\<open>round(x, 2)\<close>: the exact value of \<^verbatim>\<open>x\<close> is rounded to the nearest multiple of 0.01,
  a tie going to the even one, and the double nearest to that decimal is returned;
  infinities and not-a-number are returned as they are.
\<close>

fun py_round2 :: "pyfloat \<Rightarrow> pyfloat" where
  "py_round2 (Fin x) = round_double (of_int (round_half_even (x * 100)) / 100)"
| "py_round2 x = x"

subsection \<open>JSON values as Python objects\<close>

text \<open>
  \<^verbatim>\<open>response.json()\<close> yields \<^verbatim>\<open>None\<close>, booleans, integers, floats, strings, lists and
  dictionaries. A dictionary is kept as the list of its items in insertion order.
\<close>

datatype json =
    JNull
  | JBool bool
  | JInt int
  | JFloat pyfloat
  | JStr string
  | JList "json list"
  | JObj "(string \<times> json) list"

type_synonym dict = "(string \<times> json) list"

definition keys :: "dict \<Rightarrow> string list" where
  "keys d = map fst d"

text \<open>\<^verbatim>\<open>d.get(k)\<close>: the value, or \<^verbatim>\<open>None\<close> when the key is missing.\<close>

definition dict_get :: "dict \<Rightarrow> string \<Rightarrow> json" where
  "dict_get d k = (case map_of d k of None \<Rightarrow> JNull | Some v \<Rightarrow> v)"

text \<open>Truth value of an object, as \<^verbatim>\<open>not x\<close> tests it.\<close>

fun truthy :: "json \<Rightarrow> bool" where
  "truthy JNull = False"
| "truthy (JBool b) = b"
| "truthy (JInt n) = (n \<noteq> 0)"
| "truthy (JFloat f) = (\<not> feq f (Fin 0))"
| "truthy (JStr s) = (s \<noteq> [])"
| "truthy (JList xs) = (xs \<noteq> [])"
| "truthy (JObj kvs) = (kvs \<noteq> [])"

text \<open>
  \<^verbatim>\<open>float(v)\<close>. The parser of strings is Python's own and is taken as the parameter
  \<open>float_str\<close> (\<open>None\<close> where Python raises ValueError). An integer too large for a
  double raises OverflowError: the largest integer that still rounds to a finite double is
  below \<open>2 ^ 1024 - 2 ^ 970\<close>. An integer is kept as it is: up to \<open>2 ^ 53\<close> in size
  doubles hold it exactly, and beyond that the rounding of \<^verbatim>\<open>float\<close> is monotone, so the
  checks of lines 160 and 187, whose bounds are doubles, give the same answer.
\<close>

fun py_float :: "(string \<Rightarrow> pyfloat option) \<Rightarrow> json \<Rightarrow> exn + pyfloat" where
  "py_float float_str JNull = Inl TypeError"
| "py_float float_str (JBool b) = Inr (Fin (if b then 1 else 0))"
| "py_float float_str (JInt n) =
     (if \<bar>n\<bar> < 2 ^ 1024 - 2 ^ 970 then Inr (Fin (of_int n)) else Inl OverflowError)"
| "py_float float_str (JFloat f) = Inr f"
| "py_float float_str (JStr s) =
     (case float_str s of None \<Rightarrow> Inl ValueError | Some f \<Rightarrow> Inr f)"
| "py_float float_str (JList xs) = Inl TypeError"
| "py_float float_str (JObj kvs) = Inl TypeError"

subsection \<open>Validation of one value (lines 142-193)\<close>

text \<open>Lines 143-148: a list stands for its first element, an empty list for \<^verbatim>\<open>None\<close>.\<close>

fun unwrap :: "json \<Rightarrow> json" where
  "unwrap (JList []) = JNull"
| "unwrap (JList (x # xs)) = x"
| "unwrap v = v"

text \<open>
  Lines 156-173. The test \<^verbatim>\<open>tv != tv\<close> of line 156 only prints, and line 160 starts
  a fresh \<^verbatim>\<open>if\<close>. \<open>temp_branch\<close> is the branch of that chain which the float
  \<^verbatim>\<open>tv\<close> takes; \<open>temp_range\<close> is the value \<^verbatim>\<open>temp_valid\<close> has after it.
\<close>

datatype branch =
    Missing  \<comment> \<open>line 160: taken as a missing-value marker\<close>
  | Kelvin  \<comment> \<open>line 162\<close>
  | Celsius  \<comment> \<open>line 165\<close>
  | Unknown  \<comment> \<open>line 168: outside both scales\<close>

definition temp_branch :: "pyfloat \<Rightarrow> branch" where
  "temp_branch tv =
     (if flt tv (Fin (- 100)) \<or> flt (Fin 400) tv then Missing
      else if fle (Fin 200) tv \<and> fle tv (Fin 350) then Kelvin
      else if fle (Fin (- 80)) tv \<and> fle tv (Fin 80) then Celsius
      else Unknown)"

definition temp_range :: "pyfloat \<Rightarrow> pyfloat option" where
  "temp_range tv =
     (case temp_branch tv of
        Missing \<Rightarrow> None
      | Kelvin \<Rightarrow> Some tv
      | Celsius \<Rightarrow> Some tv
      | Unknown \<Rightarrow> if flt (Fin (- 150)) tv \<and> flt tv (Fin 450) then Some tv else None)"

text \<open>Lines 184-190, the value of \<^verbatim>\<open>hum_valid\<close> for the float \<^verbatim>\<open>hv\<close>.\<close>

definition hum_range :: "pyfloat \<Rightarrow> pyfloat option" where
  "hum_range hv =
     (if \<not> feq hv hv then None
      else if flt hv (Fin 0) \<or> flt (Fin 100) hv then None
      else Some hv)"

text \<open>
  Lines 151-175 and 179-193: \<^verbatim>\<open>None\<close> is skipped, TypeError and ValueError of the
  coercion are caught and leave the value invalid, any other exception leaves the loop.
\<close>

definition checked :: "(string \<Rightarrow> pyfloat option) \<Rightarrow> (pyfloat \<Rightarrow> pyfloat option) \<Rightarrow> json
    \<Rightarrow> exn + pyfloat option" where
  "checked float_str policy v =
     (case v of
        JNull \<Rightarrow> Inr None
      | _ \<Rightarrow> (case py_float float_str v of
                Inr x \<Rightarrow> Inr (policy x)
              | Inl e \<Rightarrow> if e = TypeError \<or> e = ValueError then Inr None else Inl e))"

subsection \<open>The loop over the dates (lines 127-202)\<close>

text \<open>
  \<open>hum_lookup\<close> is line 136: a humidity series that is not a dictionary gives \<^verbatim>\<open>None\<close>
  for every date. The loop appends to the three lists \<^verbatim>\<open>valid_dates\<close>,
  \<^verbatim>\<open>temperatures\<close> and \<^verbatim>\<open>humidities\<close>; an exception that is not caught inside the
  body ends it.
\<close>

definition hum_lookup :: "json \<Rightarrow> string \<Rightarrow> json" where
  "hum_lookup humidity_data date =
     (case humidity_data of JObj d \<Rightarrow> dict_get d date | _ \<Rightarrow> JNull)"

type_synonym series = "string list \<times> pyfloat list \<times> pyfloat list"

fun collect :: "(string \<Rightarrow> pyfloat option) \<Rightarrow> dict \<Rightarrow> json \<Rightarrow> string list \<Rightarrow> series
    \<Rightarrow> exn + series" where
  "collect float_str temp_data humidity_data [] acc = Inr acc"
| "collect float_str temp_data humidity_data (date # rest) (valid_dates, temps, hums) =
     (let temp_val = unwrap (dict_get temp_data date);
          hum_val = unwrap (hum_lookup humidity_data date)
      in case checked float_str temp_range temp_val of
           Inl e \<Rightarrow> Inl e
         | Inr temp_valid \<Rightarrow>
            (case checked float_str hum_range hum_val of
               Inl e \<Rightarrow> Inl e
             | Inr hum_valid \<Rightarrow>
                (case (temp_valid, hum_valid) of
                   (Some t, Some h) \<Rightarrow>
                     collect float_str temp_data humidity_data rest
                       (valid_dates @ [date], temps @ [t], hums @ [h])
                 | _ \<Rightarrow>
                     collect float_str temp_data humidity_data rest
                       (valid_dates, temps, hums))))"

subsection \<open>Responses\<close>

record summary =
  dates :: "string list"
  temperatures :: "pyfloat list"
  humidities :: "pyfloat list"
  avgTemp :: pyfloat
  avgHumidity :: pyfloat
  dataDays :: nat

text \<open>
  The body of a response: the success object of line 235, or one of the error messages.
  An error carries the values its message is formatted from.
\<close>

datatype body =
    Success summary
  | ErrRequired  \<comment> \<open>line 32: latitude, longitude and date are required\<close>
  | ErrDataFormat "string list"  \<comment> \<open>line 84, with the top-level keys\<close>
  | ErrNoParameter "string list"  \<comment> \<open>line 89, with the keys of properties\<close>
  | ErrNoT2M "string list"  \<comment> \<open>line 98, with the parameter keys\<close>
  | ErrNoRH2M "string list"  \<comment> \<open>line 101, with the parameter keys\<close>
  | ErrT2MType  \<comment> \<open>line 113\<close>
  | ErrInsufficientData nat "string list"  \<comment> \<open>line 117: number of dates, the dates\<close>
  | ErrInsufficientValid nat "string list"  \<comment> \<open>line 216: number of valid days, the valid dates\<close>
  | ErrApiRequest  \<comment> \<open>line 246\<close>
  | ErrServer  \<comment> \<open>line 248: any exception that is not a RequestException\<close>

text \<open>A response is a body and an HTTP status.\<close>

type_synonym response = "body \<times> nat"

subsection \<open>The reduction (lines 209-243)\<close>

text \<open>
  \<open>last5\<close> is \<^verbatim>\<open>xs[-5:]\<close>. The literal \<^verbatim>\<open>273.15\<close> of line 233 is the double nearest
  to 273.15.
\<close>

definition last5 :: "'a list \<Rightarrow> 'a list" where
  "last5 xs = drop (length xs - 5) xs"

fun reduce :: "series \<Rightarrow> response" where
  "reduce (valid_dates, temps, hums) =
     (if length temps < 5 \<and> \<not> 3 \<le> length temps
      then (ErrInsufficientValid (length temps) valid_dates, 500)
      else
        let (valid_dates, temps, hums) =
              (if length temps > 5 then (last5 valid_dates, last5 temps, last5 hums)
               else (valid_dates, temps, hums))
        in (case fdiv_len (py_sum temps) (length temps) of
              Inl e \<Rightarrow> (ErrServer, 500)
            | Inr avg_temp \<Rightarrow>
               (case fdiv_len (py_sum hums) (length hums) of
                  Inl e \<Rightarrow> (ErrServer, 500)
                | Inr avg_humidity \<Rightarrow>
                   (let temp_celsius =
                          (if flt (Fin 100) avg_temp
                           then fsub avg_temp (round_double 273.15)
                           else avg_temp)
                    in (Success \<lparr> dates = valid_dates, temperatures = temps,
                                   humidities = hums, avgTemp = py_round2 temp_celsius,
                                   avgHumidity = py_round2 avg_humidity,
                                   dataDays = length valid_dates \<rparr>, 200)))))"

subsection \<open>The shape checks on the payload (lines 78-118)\<close>

text \<open>
  \<open>payload_series\<close> returns the response of the first failing check, or the two series.
  \<^verbatim>\<open>data.keys()\<close> of line 78 raises AttributeError unless \<^verbatim>\<open>data\<close> is a dictionary.
  When \<^verbatim>\<open>properties\<close> is not a dictionary, either the membership test of line 86 raises
  TypeError, or line 88 raises AttributeError, or the subscript of line 91 raises TypeError;
  line 92 raises AttributeError when \<^verbatim>\<open>parameter\<close> is not a dictionary. Each of them
  ends in the handler of line 247.
\<close>

definition payload_series :: "json \<Rightarrow> response + (dict \<times> json)" where
  "payload_series data =
     (case data of
        JObj obj \<Rightarrow>
          (case map_of obj ''properties'' of
             None \<Rightarrow> Inl (ErrDataFormat (keys obj), 500)
           | Some (JObj props) \<Rightarrow>
               (case map_of props ''parameter'' of
                  None \<Rightarrow> Inl (ErrNoParameter (keys props), 500)
                | Some (JObj params) \<Rightarrow>
                    (let temp_data = dict_get params ''T2M'';
                         humidity_data = dict_get params ''RH2M''
                     in if \<not> truthy temp_data then Inl (ErrNoT2M (keys params), 500)
                        else if \<not> truthy humidity_data then Inl (ErrNoRH2M (keys params), 500)
                        else (case temp_data of
                                JObj td \<Rightarrow> Inr (td, humidity_data)
                              | _ \<Rightarrow> Inl (ErrT2MType, 500)))
                | Some _ \<Rightarrow> Inl (ErrServer, 500))
           | Some props \<Rightarrow> Inl (ErrServer, 500))
      | _ \<Rightarrow> Inl (ErrServer, 500))"

text \<open>
  Lines 106-243 on the two series: the count of raw dates, the loop, the reduction.
  \<^verbatim>\<open>sorted\<close> orders strings by code point, which is the lexicographic order of
  character lists.
\<close>

definition summarise :: "(string \<Rightarrow> pyfloat option) \<Rightarrow> dict \<Rightarrow> json \<Rightarrow> response" where
  "summarise float_str temp_data humidity_data =
     (let ds = sort (keys temp_data)
      in if length ds < 3 then (ErrInsufficientData (length ds) ds, 500)
         else (case collect float_str temp_data humidity_data ds ([], [], []) of
                 Inl e \<Rightarrow> (ErrServer, 500)
               | Inr s \<Rightarrow> reduce s))"

definition process_payload :: "(string \<Rightarrow> pyfloat option) \<Rightarrow> json \<Rightarrow> response" where
  "process_payload float_str data =
     (case payload_series data of
        Inl r \<Rightarrow> r
      | Inr (temp_data, humidity_data) \<Rightarrow> summarise float_str temp_data humidity_data)"

subsection \<open>The query and the outbound call (lines 27-74)\<close>

text \<open>
  The three query arguments as the client sent them, \<open>None\<close> for an argument that is
  not there.
\<close>

record query =
  lat_arg :: "string option"
  lng_arg :: "string option"
  date_arg :: "string option"

text \<open>
  \<^verbatim>\<open>request.args.get(name, type=float)\<close>: \<^verbatim>\<open>None\<close> when the argument is missing and
  when \<^verbatim>\<open>float\<close> raises ValueError on it.
\<close>

definition arg_float :: "(string \<Rightarrow> pyfloat option) \<Rightarrow> string option \<Rightarrow> pyfloat option" where
  "arg_float float_str a = (case a of None \<Rightarrow> None | Some s \<Rightarrow> float_str s)"

text \<open>\<^verbatim>\<open>not x\<close> for a float or \<^verbatim>\<open>None\<close>, and for a string or \<^verbatim>\<open>None\<close>.\<close>

definition not_float :: "pyfloat option \<Rightarrow> bool" where
  "not_float x = (case x of None \<Rightarrow> True | Some f \<Rightarrow> feq f (Fin 0))"

definition not_str :: "string option \<Rightarrow> bool" where
  "not_str x = (case x of None \<Rightarrow> True | Some s \<Rightarrow> s = [])"

text \<open>
  The outbound request: the four values that lines 47-56 format into the URL. Dates are
  day numbers of the proleptic Gregorian calendar, day 1 being 0001-01-01, the earliest
  date of \<^verbatim>\<open>datetime\<close>.
\<close>

record request =
  longitude :: pyfloat
  latitude :: pyfloat
  start_date :: int
  end_date :: int

text \<open>
  Lines 27-40. \<^verbatim>\<open>datetime.strptime(date_str, '%Y-%m-%d')\<close> is Python's own and is taken
  as the parameter \<open>strptime\<close>: the day number of the date, \<open>None\<close> where Python
  raises ValueError. Subtracting seven days raises OverflowError below day 1. Both
  exceptions end in the handler of line 247.
\<close>

definition prepare :: "(string \<Rightarrow> pyfloat option) \<Rightarrow> (string \<Rightarrow> int option) \<Rightarrow> query
    \<Rightarrow> response + request" where
  "prepare float_str strptime q =
     (let lat = arg_float float_str (lat_arg q);
          lng = arg_float float_str (lng_arg q);
          date_str = date_arg q
      in if not_float lat \<or> not_float lng \<or> not_str date_str then Inl (ErrRequired, 400)
         else (case (lat, lng, date_str) of
                 (Some lat_val, Some lng_val, Some ds) \<Rightarrow>
                   (case strptime ds of
                      None \<Rightarrow> Inl (ErrServer, 500)
                    | Some e \<Rightarrow>
                        if e - 7 < 1 then Inl (ErrServer, 500)
                        else Inr \<lparr> longitude = lng_val, latitude = lat_val,
                                   start_date = e - 7, end_date = e \<rparr>)
               | _ \<Rightarrow> Inl (ErrRequired, 400)))"

text \<open>
  What \<^verbatim>\<open>requests.get\<close> gives: an exception of the transport, or a reply with a status
  and a body, the body being JSON or not. Lines 61-74: \<^verbatim>\<open>raise_for_status\<close> raises for
  a status from 400 to 599, and \<^verbatim>\<open>response.json()\<close> raises on a body that is not JSON;
  both exceptions are RequestExceptions (the second one since requests 2.27) and end in the
  handler of line 245.
\<close>

datatype http_reply = ConnectionError | Reply nat "json option"

definition fetch_payload :: "http_reply \<Rightarrow> response + json" where
  "fetch_payload r =
     (case r of
        ConnectionError \<Rightarrow> Inl (ErrApiRequest, 500)
      | Reply status_code content \<Rightarrow>
          if status_code \<noteq> 200 \<and> 400 \<le> status_code \<and> status_code < 600
          then Inl (ErrApiRequest, 500)
          else (case content of
                  None \<Rightarrow> Inl (ErrApiRequest, 500)
                | Some data \<Rightarrow> Inr data))"

text \<open>
  The handler. The provider is the function \<open>requests_get\<close>; the second component of
  the result is the list of the requests sent to it.
\<close>

definition get_nasa_power_data :: "(string \<Rightarrow> pyfloat option) \<Rightarrow> (string \<Rightarrow> int option)
    \<Rightarrow> (request \<Rightarrow> http_reply) \<Rightarrow> query \<Rightarrow> response \<times> request list" where
  "get_nasa_power_data float_str strptime requests_get q =
     (case prepare float_str strptime q of
        Inl r \<Rightarrow> (r, [])
      | Inr req \<Rightarrow>
          (case fetch_payload (requests_get req) of
             Inl r \<Rightarrow> (r, [req])
           | Inr data \<Rightarrow> (process_payload float_str data, [req])))"

subsection \<open>Notions used to state the properties\<close>

text \<open>
  A date is valid when both of its values pass, the test of line 196. A date raises when
  the coercion of one of its values raises an exception that line 174 or line 192 does not
  catch, which ends the loop and the request.
\<close>

definition day_valid :: "(string \<Rightarrow> pyfloat option) \<Rightarrow> dict \<Rightarrow> json \<Rightarrow> string \<Rightarrow> bool" where
  "day_valid float_str temp_data humidity_data date =
     (case (checked float_str temp_range (unwrap (dict_get temp_data date)),
            checked float_str hum_range (unwrap (hum_lookup humidity_data date))) of
        (Inr (Some t), Inr (Some h)) \<Rightarrow> True
      | _ \<Rightarrow> False)"

definition day_raises :: "(string \<Rightarrow> pyfloat option) \<Rightarrow> dict \<Rightarrow> json \<Rightarrow> string \<Rightarrow> bool" where
  "day_raises float_str temp_data humidity_data date =
     (case checked float_str temp_range (unwrap (dict_get temp_data date)) of
        Inl e \<Rightarrow> True
      | Inr t \<Rightarrow>
          (case checked float_str hum_range (unwrap (hum_lookup humidity_data date)) of
             Inl e \<Rightarrow> True
           | Inr h \<Rightarrow> False))"

subsection \<open>Example inputs\<close>

text \<open>
  \<open>float_str0\<close> and \<open>strptime0\<close> stand for Python's \<^verbatim>\<open>float\<close> and
  \<^verbatim>\<open>datetime.strptime\<close> in the examples: they agree with Python on the strings
  \<^verbatim>\<open>35.5\<close>, \<^verbatim>\<open>139.75\<close>, \<^verbatim>\<open>0\<close>, \<^verbatim>\<open>abc\<close>, \<^verbatim>\<open>2024-06-15\<close> and \<^verbatim>\<open>0001-01-03\<close>,
  and the examples use no other string. The payload \<open>payload_of t2m rh2m\<close> has the
  shape of a provider reply; \<open>t2m_week\<close> and \<open>rh2m_week\<close> are seven days, one of them
  with the humidity marker -999, listed out of order.
\<close>

definition float_str0 :: "string \<Rightarrow> pyfloat option" where
  "float_str0 s =
     (if s = ''35.5'' then Some (Fin 35.5)
      else if s = ''139.75'' then Some (Fin 139.75)
      else if s = ''0'' then Some (Fin 0)
      else None)"

definition strptime0 :: "string \<Rightarrow> int option" where
  "strptime0 s =
     (if s = ''2024-06-15'' then Some 739052
      else if s = ''0001-01-03'' then Some 3
      else None)"

definition payload_of :: "json \<Rightarrow> json \<Rightarrow> json" where
  "payload_of t2m rh2m =
     JObj [(''properties'', JObj [(''parameter'', JObj [(''T2M'', t2m), (''RH2M'', rh2m)])])]"

definition t2m_week :: dict where
  "t2m_week =
     [(''20240612'', JFloat (Fin 299)), (''20240609'', JFloat (Fin 290)),
      (''20240610'', JFloat (Fin 291)), (''20240611'', JFloat (Fin 298)),
      (''20240613'', JFloat (Fin 300)), (''20240614'', JFloat (Fin 301)),
      (''20240615'', JFloat (Fin 302))]"

definition rh2m_week :: dict where
  "rh2m_week =
     [(''20240609'', JFloat (Fin 50)), (''20240610'', JFloat (Fin (- 999))),
      (''20240611'', JFloat (Fin 60)), (''20240612'', JFloat (Fin 65)),
      (''20240613'', JFloat (Fin 70)), (''20240614'', JFloat (Fin 80)),
      (''20240615'', JFloat (Fin 90))]"

definition rh2m_two :: dict where
  "rh2m_two = [(''20240609'', JFloat (Fin 50)), (''20240615'', JInt 90), (''20240501'', JInt 40)]"

definition rh2m_four :: dict where
  "rh2m_four =
     [(''20240609'', JFloat (Fin 50)), (''20240615'', JInt 90), (''20240612'', JList [JInt 55]),
      (''20240610'', JFloat NaN), (''20240613'', JFloat (Fin 100))]"


text \<open>
  A query for Tokyo on 2024-06-15, the request it leads to, a provider that answers every
  request with the week above, and the summary of that week.
\<close>

definition query0 :: query where
  "query0 = \<lparr> lat_arg = Some ''35.5'', lng_arg = Some ''139.75'', date_arg = Some ''2024-06-15'' \<rparr>"

definition request0 :: request where
  "request0 = \<lparr> longitude = Fin 139.75, latitude = Fin 35.5,
                 start_date = 739045, end_date = 739052 \<rparr>"

definition provider0 :: "request \<Rightarrow> http_reply" where
  "provider0 req = Reply 200 (Some (payload_of (JObj t2m_week) (JObj rh2m_week)))"

definition summary0 :: summary where
  "summary0 =
     \<lparr> dates = [''20240611'', ''20240612'', ''20240613'', ''20240614'', ''20240615''],
       temperatures = [Fin 298, Fin 299, Fin 300, Fin 301, Fin 302],
       humidities = [Fin 60, Fin 65, Fin 70, Fin 80, Fin 90],
       avgTemp = round_double 26.85, avgHumidity = Fin 73, dataDays = 5 \<rparr>"

text \<open>
  A T2M series of two days and one whose first value is an integer too large for a
  double; providers that answer with it and with an empty T2M series;
  queries with a date that does not parse, without a longitude, on the equator, and for
  the third day of the calendar.
\<close>

definition t2m_two :: dict where
  "t2m_two = [(''20240615'', JInt 16), (''20240614'', JInt 15)]"

definition t2m_huge :: dict where
  "t2m_huge = [(''20240613'', JInt (2 ^ 1024)), (''20240614'', JInt 15), (''20240615'', JInt 16)]"

definition provider_two :: "request \<Rightarrow> http_reply" where
  "provider_two req = Reply 200 (Some (payload_of (JObj t2m_two) (JObj rh2m_week)))"

definition provider_empty :: "request \<Rightarrow> http_reply" where
  "provider_empty req = Reply 200 (Some (payload_of (JObj []) (JObj rh2m_week)))"

definition query_bad_date :: query where
  "query_bad_date = \<lparr> lat_arg = Some ''35.5'', lng_arg = Some ''139.75'', date_arg = Some ''abc'' \<rparr>"

definition query_no_lng :: query where
  "query_no_lng = \<lparr> lat_arg = Some ''35.5'', lng_arg = None, date_arg = Some ''2024-06-15'' \<rparr>"

definition query_early :: query where
  "query_early = \<lparr> lat_arg = Some ''35.5'', lng_arg = Some ''139.75'', date_arg = Some ''0001-01-03'' \<rparr>"

definition query_equator :: query where
  "query_equator = \<lparr> lat_arg = Some ''0'', lng_arg = Some ''139.75'', date_arg = Some ''2024-06-15'' \<rparr>"

section \<open>Properties\<close>

subsection \<open>The two validity policies\<close>

lemma temp_range_Fin:
  "temp_range (Fin t) = (if - 100 \<le> t \<and> t \<le> 400 then Some (Fin t) else None)"
  by (auto simp: temp_range_def temp_branch_def fle_def)

lemma temp_range_Some:
  "temp_range tv = Some x \<longleftrightarrow> x = tv \<and> (\<exists>t. tv = Fin t \<and> - 100 \<le> t \<and> t \<le> 400)"
  by (cases tv) (auto simp: temp_range_def temp_branch_def fle_def split: if_splits)


subsection \<open>The loop and the reduction\<close>

lemma collect_result:
  "collect fs td hm ds (vd, ts, hs) = Inr (vd', ts', hs') \<Longrightarrow>
   vd' = vd @ filter (day_valid fs td hm) ds \<and>
   (\<exists>ts2 hs2. ts' = ts @ ts2 \<and> hs' = hs @ hs2 \<and>
      list_all2 (\<lambda>d t. checked fs temp_range (unwrap (dict_get td d)) = Inr (Some t))
        (filter (day_valid fs td hm) ds) ts2 \<and>
      list_all2 (\<lambda>d h. checked fs hum_range (unwrap (hum_lookup hm d)) = Inr (Some h))
        (filter (day_valid fs td hm) ds) hs2)"
proof (induction ds arbitrary: vd ts hs)
  case Nil
  then show ?case by simp
next
  case (Cons d ds)
  show ?case
  proof (cases "day_valid fs td hm d")
    case True
    then obtain t h where
      t: "checked fs temp_range (unwrap (dict_get td d)) = Inr (Some t)" and
      h: "checked fs hum_range (unwrap (hum_lookup hm d)) = Inr (Some h)"
      by (auto simp: day_valid_def split: sum.splits option.splits)
    with Cons.prems have "collect fs td hm ds (vd @ [d], ts @ [t], hs @ [h]) = Inr (vd', ts', hs')"
      by simp
    from Cons.IH [OF this] True t h show ?thesis
      by auto
  next
    case False
    with Cons.prems have "collect fs td hm ds (vd, ts, hs) = Inr (vd', ts', hs')"
      by (auto simp: day_valid_def split: sum.splits option.splits)
    from Cons.IH [OF this] False show ?thesis
      by auto
  qed
qed

lemma checked_Some:
  "checked fs policy v = Inr (Some x) \<Longrightarrow> \<exists>y. py_float fs v = Inr y \<and> policy y = Some x"
  by (cases v) (auto simp: checked_def split: sum.splits if_splits)

lemma checked_temp:
  "checked fs temp_range v = Inr (Some t) \<Longrightarrow>
   py_float fs v = Inr t \<and> (\<exists>r. t = Fin r \<and> - 100 \<le> r \<and> r \<le> 400)"
  by (drule checked_Some) (auto simp: temp_range_Some)


lemma last5_if: "(if length xs > 5 then last5 xs else xs) = last5 xs"
  by (simp add: last5_def)

lemma length_last5: "length (last5 xs) = min 5 (length xs)"
  by (auto simp: last5_def)

lemma last5_map: "last5 (map f xs) = map f (last5 xs)"
  by (simp add: last5_def drop_map)

lemma collect_start:
  assumes "collect fs td hm ds ([], [], []) = Inr (vd, ts, hs)"
  shows "vd = filter (day_valid fs td hm) ds"
    and "list_all2 (\<lambda>d t. checked fs temp_range (unwrap (dict_get td d)) = Inr (Some t)) vd ts"
    and "list_all2 (\<lambda>d h. checked fs hum_range (unwrap (hum_lookup hm d)) = Inr (Some h)) vd hs"
  using collect_result [OF assms] by auto

lemma collect_lengths:
  assumes "collect fs td hm ds ([], [], []) = Inr (vd, ts, hs)"
  shows "length ts = length vd" and "length hs = length vd"
  using collect_start(2,3) [OF assms] by (auto dest: list_all2_lengthD)



lemma fdiv_len_pos: "0 < n \<Longrightarrow> \<exists>a. fdiv_len x n = Inr a"
  by (cases x; cases n) simp_all

lemma reduce_short:
  "length ts < 3 \<Longrightarrow> reduce (vd, ts, hs) = (ErrInsufficientValid (length ts) vd, 500)"
  by simp

lemma reduce_enough:
  assumes "length vd = length ts" "length hs = length ts" "3 \<le> length ts"
  shows "\<exists>a h. fdiv_len (py_sum (last5 ts)) (length (last5 ts)) = Inr a \<and>
           fdiv_len (py_sum (last5 hs)) (length (last5 hs)) = Inr h \<and>
           reduce (vd, ts, hs) =
             (Success \<lparr> dates = last5 vd, temperatures = last5 ts, humidities = last5 hs,
                         avgTemp = py_round2 (if flt (Fin 100) a
                                              then fsub a (round_double 273.15) else a),
                         avgHumidity = py_round2 h,
                         dataDays = min 5 (length vd) \<rparr>, 200)"
proof -
  from assms have "0 < length ts" "0 < length hs"
    by auto
  then have pos: "0 < length (last5 ts)" "0 < length (last5 hs)"
    unfolding length_last5 by simp_all
  from fdiv_len_pos [OF pos(1)] obtain a where
    a: "fdiv_len (py_sum (last5 ts)) (length (last5 ts)) = Inr a" by blast
  from fdiv_len_pos [OF pos(2)] obtain h where
    h: "fdiv_len (py_sum (last5 hs)) (length (last5 hs)) = Inr h" by blast
  have eq: "\<not> 5 < length ts \<Longrightarrow> last5 vd = vd \<and> last5 ts = ts \<and> last5 hs = hs"
    using assms by (simp add: last5_def)
  have "reduce (vd, ts, hs) =
      (Success \<lparr> dates = last5 vd, temperatures = last5 ts, humidities = last5 hs,
                  avgTemp = py_round2 (if flt (Fin 100) a
                                       then fsub a (round_double 273.15) else a),
                  avgHumidity = py_round2 h,
                  dataDays = min 5 (length vd) \<rparr>, 200)"
  proof (cases "5 < length ts")
    case True
    with assms a h show ?thesis
      by (simp add: length_last5 del: py_round2.simps)
  next
    case False
    with eq have e: "last5 vd = vd" "last5 ts = ts" "last5 hs = hs" by simp_all
    from False assms a h show ?thesis
      unfolding e by (simp del: py_round2.simps)
  qed
  with a h show ?thesis by blast
qed

lemma reduce_collect:
  assumes c: "collect fs td hm ds ([], [], []) = Inr (vd, ts, hs)" and n: "3 \<le> length vd"
  shows "\<exists>a h. fdiv_len (py_sum (last5 ts)) (length (last5 ts)) = Inr a \<and>
           fdiv_len (py_sum (last5 hs)) (length (last5 hs)) = Inr h \<and>
           reduce (vd, ts, hs) =
             (Success \<lparr> dates = last5 vd, temperatures = last5 ts, humidities = last5 hs,
                         avgTemp = py_round2 (if flt (Fin 100) a
                                              then fsub a (round_double 273.15) else a),
                         avgHumidity = py_round2 h,
                         dataDays = min 5 (length vd) \<rparr>, 200)"
  using collect_lengths [OF c] n by (intro reduce_enough) simp_all

lemma summarise_Success:
  assumes "summarise fs td hm = (Success s, st)"
  shows "\<exists>vd ts hs. collect fs td hm (sort (keys td)) ([], [], []) = Inr (vd, ts, hs) \<and>
           3 \<le> length vd \<and> reduce (vd, ts, hs) = (Success s, st)"
proof -
  from assms obtain vd ts hs where
    c: "collect fs td hm (sort (keys td)) ([], [], []) = Inr (vd, ts, hs)" and
    r: "reduce (vd, ts, hs) = (Success s, st)"
    by (auto simp: summarise_def Let_def split: if_splits sum.splits)
  have "3 \<le> length vd"
  proof (rule ccontr)
    assume "\<not> 3 \<le> length vd"
    then have "length ts < 3" using collect_lengths [OF c] by simp
    from reduce_short [OF this] r show False by simp
  qed
  with c r show ?thesis by blast
qed

lemma summarise_eq:
  assumes "summarise fs td hm = (Success s, st)"
  shows "\<exists>vd ts hs a h. collect fs td hm (sort (keys td)) ([], [], []) = Inr (vd, ts, hs) \<and>
           3 \<le> length vd \<and> st = 200 \<and>
           fdiv_len (py_sum (last5 ts)) (length (last5 ts)) = Inr a \<and>
           fdiv_len (py_sum (last5 hs)) (length (last5 hs)) = Inr h \<and>
           s = \<lparr> dates = last5 vd, temperatures = last5 ts, humidities = last5 hs,
                 avgTemp = py_round2 (if flt (Fin 100) a
                                      then fsub a (round_double 273.15) else a),
                 avgHumidity = py_round2 h,
                 dataDays = min 5 (length vd) \<rparr>"
proof -
  from summarise_Success [OF assms] obtain vd ts hs where
    c: "collect fs td hm (sort (keys td)) ([], [], []) = Inr (vd, ts, hs)" and
    n: "3 \<le> length vd" and r: "reduce (vd, ts, hs) = (Success s, st)"
    by blast
  from reduce_collect [OF c n] r c n show ?thesis
    by (auto simp del: reduce.simps py_round2.simps)
qed

lemma handler_Success:
  assumes "get_nasa_power_data fs sp env q = ((Success s, st), calls)"
  shows "\<exists>req data td hm. calls = [req] \<and> prepare fs sp q = Inr req \<and>
           fetch_payload (env req) = Inr data \<and> payload_series data = Inr (td, hm) \<and>
           summarise fs td hm = (Success s, st)"
proof -
  from assms obtain req where p: "prepare fs sp q = Inr req"
    by (cases "prepare fs sp q")
      (auto simp: get_nasa_power_data_def prepare_def Let_def
        split: if_splits option.splits prod.splits)
  from assms p obtain data where f: "fetch_payload (env req) = Inr data"
    by (cases "fetch_payload (env req)")
      (auto simp: get_nasa_power_data_def fetch_payload_def
        split: http_reply.splits if_splits option.splits)
  from assms p f have c: "calls = [req]" and pp: "process_payload fs data = (Success s, st)"
    by (simp_all add: get_nasa_power_data_def)
  from pp obtain td hm where ps: "payload_series data = Inr (td, hm)"
    by (cases "payload_series data")
      (auto simp: process_payload_def payload_series_def Let_def
        split: json.splits option.splits if_splits)
  with pp have "summarise fs td hm = (Success s, st)"
    by (simp add: process_payload_def)
  with c p f ps show ?thesis by blast
qed

subsection \<open>The handler\<close>

lemma handler_contacted:
  "snd (get_nasa_power_data fs sp env q) = [req] \<Longrightarrow> prepare fs sp q = Inr req"
  by (cases "prepare fs sp q"; cases "fetch_payload (env (projr (prepare fs sp q)))")
    (auto simp: get_nasa_power_data_def split: sum.splits)

lemma handler_run:
  "prepare fs sp q = Inr req \<Longrightarrow> fetch_payload (env req) = Inr data \<Longrightarrow>
   payload_series data = Inr (td, hm) \<Longrightarrow>
   get_nasa_power_data fs sp env q = (summarise fs td hm, [req])"
  by (simp add: get_nasa_power_data_def process_payload_def)

lemma last5_list_all2:
  "list_all2 P xs ys \<Longrightarrow> list_all2 P (last5 xs) (last5 ys)"
proof -
  assume a: "list_all2 P xs ys"
  then have "length xs = length ys" by (rule list_all2_lengthD)
  with list_all2_dropI [OF a, of "length xs - 5"] show ?thesis
    by (simp add: last5_def)
qed

lemma sorted_last5: "sorted xs \<Longrightarrow> sorted (last5 xs)"
  by (simp add: last5_def sorted_wrt_drop)

lemma collect_raises:
  "\<exists>d \<in> set ds. day_raises fs td hm d \<Longrightarrow> \<exists>e. collect fs td hm ds acc = Inl e"
proof (induction ds arbitrary: acc)
  case Nil
  then show ?case by simp
next
  case (Cons d ds)
  obtain vd ts hs where acc: "acc = (vd, ts, hs)" by (cases acc)
  show ?case
  proof (cases "day_raises fs td hm d")
    case True
    then show ?thesis
      unfolding acc by (auto simp: day_raises_def split: sum.splits)
  next
    case False
    with Cons.prems have "\<exists>d \<in> set ds. day_raises fs td hm d" by simp
    from Cons.IH [OF this] False show ?thesis
      unfolding acc by (auto simp: day_raises_def split: sum.splits option.splits)
  qed
qed

lemma collect_returns:
  "\<forall>d \<in> set ds. \<not> day_raises fs td hm d \<Longrightarrow>
   \<exists>ts' hs'. collect fs td hm ds (vd, ts, hs) = Inr (vd @ filter (day_valid fs td hm) ds, ts', hs')"
proof (induction ds arbitrary: vd ts hs)
  case Nil
  then show ?case by simp
next
  case (Cons d ds)
  from Cons.prems have d: "\<not> day_raises fs td hm d"
    and rest: "\<forall>d \<in> set ds. \<not> day_raises fs td hm d"
    by simp_all
  from d obtain t h where
    t: "checked fs temp_range (unwrap (dict_get td d)) = Inr t" and
    h: "checked fs hum_range (unwrap (hum_lookup hm d)) = Inr h"
    by (auto simp: day_raises_def split: sum.splits)
  show ?case
  proof (cases "day_valid fs td hm d")
    case True
    with t h obtain t' h' where th: "t = Some t'" "h = Some h'"
      by (auto simp: day_valid_def split: option.splits)
    from Cons.IH [OF rest, of "vd @ [d]" "ts @ [t']" "hs @ [h']"] True t h th
    show ?thesis by simp
  next
    case False
    with t h have "(case (t, h) of (Some t', Some h') \<Rightarrow> False | _ \<Rightarrow> True)"
      by (auto simp: day_valid_def split: option.splits)
    with Cons.IH [OF rest, of vd ts hs] False t h
    show ?thesis by (auto split: option.splits)
  qed
qed

lemma collect_cong:
  "\<forall>d \<in> set ds. hum_lookup hm d = hum_lookup hm' d \<Longrightarrow>
   collect fs td hm ds acc = collect fs td hm' ds acc"
proof (induction ds arbitrary: acc)
  case Nil
  then show ?case by simp
next
  case (Cons d ds)
  obtain vd ts hs where acc: "acc = (vd, ts, hs)" by (cases acc)
  from Cons.prems have d: "hum_lookup hm d = hum_lookup hm' d"
    and rest: "\<forall>d \<in> set ds. hum_lookup hm d = hum_lookup hm' d"
    by simp_all
  show ?case
    unfolding acc by (simp add: d Cons.IH [OF rest] split: sum.splits option.splits)
qed

lemma summarise_few:
  "length (keys td) < 3 \<Longrightarrow>
   summarise fs td hm = (ErrInsufficientData (length (keys td)) (sort (keys td)), 500)"
  by (simp add: summarise_def)

lemma reduce_not_data: "reduce s \<noteq> (ErrInsufficientData n ds, st)"
  by (cases s) (auto simp: Let_def split: if_splits sum.splits prod.splits)

lemma summarise_enough:
  "3 \<le> length (keys td) \<Longrightarrow> summarise fs td hm \<noteq> (ErrInsufficientData n ds, st)"
  by (auto simp: summarise_def reduce_not_data split: sum.splits)

lemma process_payload_status: "snd (process_payload fs data) \<noteq> 400"
proof -
  have r: "snd (reduce s) \<noteq> 400" for s
    by (cases s) (auto simp: Let_def split: if_splits sum.splits prod.splits)
  have "snd (summarise fs td hm) \<noteq> 400" for td hm
    by (auto simp: summarise_def Let_def r split: sum.splits)
  then show ?thesis
    by (auto simp: process_payload_def payload_series_def Let_def
        split: sum.splits json.splits option.splits if_splits prod.splits)
qed

lemma prepare_ok:
  assumes "arg_float fs (lat_arg q) = Some la" "arg_float fs (lng_arg q) = Some lo"
    "\<not> feq la (Fin 0)" "\<not> feq lo (Fin 0)" "date_arg q = Some d" "d \<noteq> []"
  shows "prepare fs sp q =
     (case sp d of
        None \<Rightarrow> Inl (ErrServer, 500)
      | Some e \<Rightarrow> if e - 7 < 1 then Inl (ErrServer, 500)
                  else Inr \<lparr> longitude = lo, latitude = la, start_date = e - 7, end_date = e \<rparr>)"
  using assms by (simp add: prepare_def not_float_def not_str_def)

subsection \<open>Evaluation on the examples\<close>

lemma ilog2_small: "n < 2 \<Longrightarrow> ilog2 n = 0"
  by simp

lemma ilog2_step: "2 \<le> n \<Longrightarrow> ilog2 n = 1 + ilog2 (n div 2)"
  by (subst ilog2.simps) simp

declare ilog2.simps [simp del]

lemma fdiv_len_Fin: "0 < n \<Longrightarrow> fdiv_len (Fin a) n = Inr (round_double (a / real n))"
  by (cases n) simp_all

lemmas float_eval = round_double_def binade_def pow2_def round_half_even_def clog2_def Let_def
  ilog2_small ilog2_step py_sum_def last5_def fdiv_len_Fin

lemma sort_week:
  "sort (keys t2m_week) =
     [''20240609'', ''20240610'', ''20240611'', ''20240612'', ''20240613'', ''20240614'',
      ''20240615'']"
  by code_simp

lemma collect0:
  "collect float_str0 t2m_week (JObj rh2m_week) (sort (keys t2m_week)) ([], [], []) =
     Inr ([''20240609'', ''20240611'', ''20240612'', ''20240613'', ''20240614'', ''20240615''],
          [Fin 290, Fin 298, Fin 299, Fin 300, Fin 301, Fin 302],
          [Fin 50, Fin 60, Fin 65, Fin 70, Fin 80, Fin 90])"
  by code_simp

lemma reduce0:
  "reduce ([''20240609'', ''20240611'', ''20240612'', ''20240613'', ''20240614'', ''20240615''],
           [Fin 290, Fin 298, Fin 299, Fin 300, Fin 301, Fin 302],
           [Fin 50, Fin 60, Fin 65, Fin 70, Fin 80, Fin 90]) = (Success summary0, 200)"
  by (simp add: float_eval summary0_def)

lemma summarise0: "summarise float_str0 t2m_week (JObj rh2m_week) = (Success summary0, 200)"
  unfolding summarise_def Let_def collect0 by (simp add: sort_week reduce0 del: reduce.simps)

lemma prepare0: "prepare float_str0 strptime0 query0 = Inr request0"
  by code_simp

lemma fetch0:
  "fetch_payload (provider0 request0) = Inr (payload_of (JObj t2m_week) (JObj rh2m_week))"
  by (simp add: fetch_payload_def provider0_def)

lemma series0:
  "payload_series (payload_of (JObj t2m_week) (JObj rh2m_week)) = Inr (t2m_week, JObj rh2m_week)"
  by code_simp

lemma run0:
  "get_nasa_power_data float_str0 strptime0 provider0 query0 = ((Success summary0, 200), [request0])"
  using handler_run [where env = provider0, OF prepare0 fetch0 series0]
  by (simp add: summarise0)

lemma equator_rejected:
  "arg_float float_str0 (lat_arg query_equator) = Some (Fin 0) \<and>
   arg_float float_str0 (lng_arg query_equator) = Some (Fin 139.75) \<and>
   date_arg query_equator = Some ''2024-06-15'' \<and> strptime0 ''2024-06-15'' = Some 739052 \<and>
   get_nasa_power_data float_str0 strptime0 provider0 query_equator = ((ErrRequired, 400), [])"
  by code_simp

subsection \<open>The claims on the two validity policies\<close>

text \<open>
  C1, as stated, fails: the claim accepts every temperature of the open range from -150
  to -80 through the fallback tier, but line 160 has already rejected -120 as a
  missing-value marker.
\<close>

theorem temp_range_counterexample:
  "- 150 < (- 120 :: real) \<and> (- 120 :: real) < - 80 \<and> temp_range (Fin (- 120)) = None"
  by (simp add: temp_range_def temp_branch_def)

text \<open>
  C1, amended: a temperature below -100 or above 400, an infinity and not-a-number are
  invalid; a temperature from 200 to 350 is accepted on the Kelvin branch; one from -80
  to 80 is accepted on the Celsius branch; one of the residual ranges, which are above 80
  and below 200, from -100 to below -80, and above 350 up to 400, is accepted by the
  fallback of line 172. So 200.0 is valid, 199.9 is accepted by the fallback and -999 is
  rejected.
\<close>

theorem temp_range_tiers:
  "temp_range NaN = None \<and> temp_range PInf = None \<and> temp_range NInf = None \<and>
   (t < - 100 \<or> 400 < t \<longrightarrow> temp_branch (Fin t) = Missing \<and> temp_range (Fin t) = None) \<and>
   (200 \<le> t \<and> t \<le> 350 \<longrightarrow> temp_branch (Fin t) = Kelvin \<and> temp_range (Fin t) = Some (Fin t)) \<and>
   (- 80 \<le> t \<and> t \<le> 80 \<longrightarrow> temp_branch (Fin t) = Celsius \<and> temp_range (Fin t) = Some (Fin t)) \<and>
   (80 < t \<and> t < 200 \<or> - 100 \<le> t \<and> t < - 80 \<or> 350 < t \<and> t \<le> 400 \<longrightarrow>
      temp_branch (Fin t) = Unknown \<and> temp_range (Fin t) = Some (Fin t)) \<and>
   temp_range (Fin 200) = Some (Fin 200) \<and>
   temp_branch (Fin 199.9) = Unknown \<and> temp_range (Fin 199.9) = Some (Fin 199.9) \<and>
   temp_range (Fin (- 999)) = None"
  by (auto simp: temp_range_def temp_branch_def fle_def)

theorem temp_range_tiers_witness:
  "temp_range (Fin (- 120)) = None \<and> temp_range (Fin 420) = None \<and>
   temp_range (Fin 250) = Some (Fin 250) \<and> temp_range (Fin 20) = Some (Fin 20) \<and>
   temp_branch (Fin 100) = Unknown \<and> temp_range (Fin 100) = Some (Fin 100) \<and>
   temp_range (Fin (- 90)) = Some (Fin (- 90)) \<and> temp_range (Fin 380) = Some (Fin 380)"
  using temp_range_tiers [of "- 120"] temp_range_tiers [of 420] temp_range_tiers [of 250]
    temp_range_tiers [of 20] temp_range_tiers [of 100] temp_range_tiers [of "- 90"]
    temp_range_tiers [of 380]
  by simp

text \<open>
  C6: a humidity is valid exactly when it is a number from 0 to 100, both included;
  not-a-number, the infinities, negative markers such as -999 and values above 100 such
  as 100.1 are invalid, and 100.0 is valid.
\<close>

theorem hum_range_iff:
  "hum_range hv = (if \<exists>h. hv = Fin h \<and> 0 \<le> h \<and> h \<le> 100 then Some hv else None) \<and>
   hum_range (Fin 100) = Some (Fin 100) \<and> hum_range (Fin 100.1) = None \<and>
   hum_range (Fin (- 999)) = None \<and> hum_range NaN = None \<and> hum_range PInf = None \<and>
   hum_range NInf = None"
  by (cases hv) (auto simp: hum_range_def)

subsection \<open>The claims on the reduction\<close>

text \<open>
  C4: on the validated days that the loop produces, the reduction answers with the error
  of line 216 (HTTP 500) exactly when there are fewer than 3 of them, and that error
  carries their number and the list of the valid dates; with 3, 4 or 5 validated days it
  succeeds, uses all of them, and \<^verbatim>\<open>dataDays\<close> is their number.
\<close>

theorem reduce_insufficient_iff:
  assumes "collect fs td hm ds ([], [], []) = Inr (vd, ts, hs)"
  shows "((\<exists>n xs st. reduce (vd, ts, hs) = (ErrInsufficientValid n xs, st)) = (length vd < 3)) \<and>
         (length vd < 3 \<longrightarrow> reduce (vd, ts, hs) = (ErrInsufficientValid (length vd) vd, 500)) \<and>
         (3 \<le> length vd \<and> length vd \<le> 5 \<longrightarrow>
            (\<exists>s. reduce (vd, ts, hs) = (Success s, 200) \<and> dataDays s = length vd \<and>
                 dates s = vd \<and> temperatures s = ts \<and> humidities s = hs))"
proof (cases "length vd < 3")
  case True
  then have "length ts < 3" using collect_lengths [OF assms] by simp
  from reduce_short [OF this] True collect_lengths [OF assms] show ?thesis
    by (simp del: reduce.simps)
next
  case False
  then have n: "3 \<le> length vd" by simp
  have eq: "length vd \<le> 5 \<Longrightarrow> last5 vd = vd \<and> last5 ts = ts \<and> last5 hs = hs"
    using collect_lengths [OF assms] by (simp add: last5_def)
  from reduce_collect [OF assms n] obtain a h where
    "reduce (vd, ts, hs) =
       (Success \<lparr> dates = last5 vd, temperatures = last5 ts, humidities = last5 hs,
                   avgTemp = py_round2 (if flt (Fin 100) a
                                        then fsub a (round_double 273.15) else a),
                   avgHumidity = py_round2 h,
                   dataDays = min 5 (length vd) \<rparr>, 200)"
    by blast
  with False eq show ?thesis
    by (auto simp del: reduce.simps py_round2.simps)
qed

theorem reduce_insufficient_iff_witness:
  "reduce ([''20240609'', ''20240615''], [Fin 290, Fin 302], [Fin 50, Fin 90]) =
     (ErrInsufficientValid 2 [''20240609'', ''20240615''], 500) \<and>
   (\<exists>s. reduce ([''20240609'', ''20240612'', ''20240613'', ''20240615''],
                 [Fin 290, Fin 299, Fin 300, Fin 302], [Fin 50, Fin 55, Fin 100, Fin 90]) =
          (Success s, 200) \<and> dataDays s = 4)"
proof -
  have two: "collect float_str0 t2m_week (JObj rh2m_two) (sort (keys t2m_week)) ([], [], []) =
      Inr ([''20240609'', ''20240615''], [Fin 290, Fin 302], [Fin 50, Fin 90])"
    by code_simp
  have four: "collect float_str0 t2m_week (JObj rh2m_four) (sort (keys t2m_week)) ([], [], []) =
      Inr ([''20240609'', ''20240612'', ''20240613'', ''20240615''],
           [Fin 290, Fin 299, Fin 300, Fin 302], [Fin 50, Fin 55, Fin 100, Fin 90])"
    by code_simp
  show ?thesis
    using reduce_insufficient_iff [OF two] reduce_insufficient_iff [OF four]
    by (auto simp del: reduce.simps)
qed


lemma double_rounding_examples:
  "fdiv_len (py_sum [Fin 20, Fin 20, Fin 20, Fin 20, Fin 20.375]) 5 =
     Inr (Fin (5650610157466419 / 281474976710656))"
  "py_round2 (Fin (5650610157466419 / 281474976710656)) = round_double 20.07"
  "fdiv_len (py_sum [Fin 100, Fin 100, Fin (7036874417766401 / 70368744177664)]) 3 =
     Inr (Fin 100)"
  "fdiv_len (py_sum [Fin 273.375, Fin 273.375, Fin 273.375]) 3 = Inr (Fin 273.375)"
  "py_round2 (fsub (Fin 273.375) (round_double 273.15)) = round_double 0.23"
  by (simp_all add: float_eval)


subsection \<open>The claims on the whole handler\<close>

text \<open>
  C8: on every successful response the three sequences of the summary have the same
  length, that length is \<^verbatim>\<open>dataDays\<close>, and \<^verbatim>\<open>dataDays\<close> is 3, 4 or 5; each reported
  temperature is \<^verbatim>\<open>float\<close> of the raw T2M value of its date, as it came from the
  provider, with no conversion to Celsius.
\<close>

theorem summary_shape:
  assumes "get_nasa_power_data fs sp env q = ((Success s, st), calls)"
  shows "length (dates s) = dataDays s \<and> length (temperatures s) = dataDays s \<and>
         length (humidities s) = dataDays s \<and> 3 \<le> dataDays s \<and> dataDays s \<le> 5 \<and>
         (\<exists>req data td hm. calls = [req] \<and> fetch_payload (env req) = Inr data \<and>
            payload_series data = Inr (td, hm) \<and>
            (\<forall>i < dataDays s.
               py_float fs (unwrap (dict_get td (dates s ! i))) = Inr (temperatures s ! i)))"
proof -
  from handler_Success [OF assms] obtain req data td hm where
    run: "calls = [req]" "fetch_payload (env req) = Inr data" "payload_series data = Inr (td, hm)"
    and sm: "summarise fs td hm = (Success s, st)"
    by blast
  from summarise_eq [OF sm] obtain vd ts hs a h where
    c: "collect fs td hm (sort (keys td)) ([], [], []) = Inr (vd, ts, hs)" and
    n: "3 \<le> length vd" and
    s: "s = \<lparr> dates = last5 vd, temperatures = last5 ts, humidities = last5 hs,
                 avgTemp = py_round2 (if flt (Fin 100) a
                                      then fsub a (round_double 273.15) else a),
                 avgHumidity = py_round2 h,
                 dataDays = min 5 (length vd) \<rparr>"
    by blast
  have len: "length (dates s) = dataDays s" "length (temperatures s) = dataDays s"
    "length (humidities s) = dataDays s" "3 \<le> dataDays s" "dataDays s \<le> 5"
    using collect_lengths [OF c] n by (simp_all add: s length_last5)
  have "list_all2 (\<lambda>d t. checked fs temp_range (unwrap (dict_get td d)) = Inr (Some t))
          (dates s) (temperatures s)"
    using last5_list_all2 [OF collect_start(2) [OF c]] by (simp add: s)
  then have "\<forall>i < dataDays s.
      py_float fs (unwrap (dict_get td (dates s ! i))) = Inr (temperatures s ! i)"
    using len by (auto dest!: list_all2_nthD checked_temp)
  with run len show ?thesis by blast
qed

theorem summary_shape_witness:
  "length (dates summary0) = 5 \<and> length (temperatures summary0) = 5 \<and>
   length (humidities summary0) = 5 \<and> dataDays summary0 = 5 \<and>
   (\<exists>td. \<forall>i < 5. py_float float_str0 (unwrap (dict_get td (dates summary0 ! i))) =
       Inr (temperatures summary0 ! i))"
  using summary_shape [OF run0] by (auto simp: summary0_def)

text \<open>
  C2, as stated, fails: a query for the third day of the calendar has a latitude, a
  longitude and a date that are present and parse, and the provider would answer with six
  valid days; subtracting seven days (line 37) raises, line 248 answers HTTP 500 and no
  request is sent.
\<close>

theorem five_most_recent_counterexample:
  "arg_float float_str0 (lat_arg query_early) = Some (Fin 35.5) \<and>
   arg_float float_str0 (lng_arg query_early) = Some (Fin 139.75) \<and>
   date_arg query_early = Some ''0001-01-03'' \<and> strptime0 ''0001-01-03'' = Some 3 \<and>
   length (filter (day_valid float_str0 t2m_week (JObj rh2m_week)) (sort (keys t2m_week))) = 6 \<and>
   get_nasa_power_data float_str0 strptime0 provider0 query_early = ((ErrServer, 500), [])"
  by code_simp

text \<open>
  C2, amended: when latitude and longitude parse to non-zero numbers, the date is not
  empty and parses to day 8 or later of the calendar, and the reply of the provider to the
  request yields 5 or more valid days, the response is a success with \<^verbatim>\<open>dataDays\<close> 5;
  the kept dates are the last five of the valid dates, in ascending order, and every valid
  date that is dropped is no later than every kept one. The kept temperatures and
  humidities are the matching last five.
\<close>

theorem five_most_recent:
  assumes "arg_float fs (lat_arg q) = Some la" and "arg_float fs (lng_arg q) = Some lo"
    and "\<not> feq la (Fin 0)" and "\<not> feq lo (Fin 0)"
    and "date_arg q = Some d" and "d \<noteq> []" and "sp d = Some e" and "8 \<le> e"
    and "fetch_payload
           (env \<lparr> longitude = lo, latitude = la, start_date = e - 7, end_date = e \<rparr>) =
         Inr data"
    and "payload_series data = Inr (td, hm)"
    and "collect fs td hm (sort (keys td)) ([], [], []) = Inr (vd, ts, hs)"
    and "5 \<le> length vd"
  shows "\<exists>s. get_nasa_power_data fs sp env q =
             ((Success s, 200),
              [\<lparr> longitude = lo, latitude = la, start_date = e - 7, end_date = e \<rparr>]) \<and>
           dataDays s = 5 \<and> length (dates s) = 5 \<and> sorted (dates s) \<and>
           vd = filter (day_valid fs td hm) (sort (keys td)) \<and>
           vd = take (length vd - 5) vd @ dates s \<and>
           ts = take (length vd - 5) ts @ temperatures s \<and>
           hs = take (length vd - 5) hs @ humidities s \<and>
           (\<forall>x \<in> set (take (length vd - 5) vd). \<forall>k \<in> set (dates s). x \<le> k)"
proof -
  note c = assms(11)
  let ?req = "\<lparr> longitude = lo, latitude = la, start_date = e - 7, end_date = e \<rparr>"
  have pr: "prepare fs sp q = Inr ?req"
    using prepare_ok [OF assms(1-6), of sp] assms(7,8) by simp
  have run: "get_nasa_power_data fs sp env q = (summarise fs td hm, [?req])"
    using handler_run [where env = env, OF pr assms(9,10)] .
  have n: "3 \<le> length vd" using assms(12) by simp
  have keys3: "\<not> length (sort (keys td)) < 3"
  proof
    assume "length (sort (keys td)) < 3"
    moreover have "length vd \<le> length (sort (keys td))"
      unfolding collect_start(1) [OF c] by (rule length_filter_le)
    ultimately show False using assms(12) by simp
  qed
  have sm: "summarise fs td hm = reduce (vd, ts, hs)"
    using keys3 c by (simp add: summarise_def Let_def del: reduce.simps)
  have vd: "vd = filter (day_valid fs td hm) (sort (keys td))"
    by (rule collect_start(1) [OF c])
  have srt: "sorted vd"
    unfolding vd by (simp add: sorted_wrt_filter)
  have split: "vd = take (length vd - 5) vd @ last5 vd" "ts = take (length vd - 5) ts @ last5 ts"
    "hs = take (length vd - 5) hs @ last5 hs"
    using collect_lengths [OF c] by (simp_all add: last5_def)
  have older: "\<forall>x \<in> set (take (length vd - 5) vd). \<forall>k \<in> set (last5 vd). x \<le> k"
    using srt split(1) by (metis sorted_append)
  from reduce_collect [OF c n] obtain a h where
    red: "reduce (vd, ts, hs) =
       (Success \<lparr> dates = last5 vd, temperatures = last5 ts, humidities = last5 hs,
                   avgTemp = py_round2 (if flt (Fin 100) a
                                        then fsub a (round_double 273.15) else a),
                   avgHumidity = py_round2 h,
                   dataDays = min 5 (length vd) \<rparr>, 200)"
    by blast
  show ?thesis
    unfolding run sm red
    using assms(12) split older sorted_last5 [OF srt] vd
    by (simp add: length_last5 del: py_round2.simps)
qed

theorem five_most_recent_witness:
  "get_nasa_power_data float_str0 strptime0 provider0 query0 =
     ((Success summary0, 200), [request0]) \<and>
   dataDays summary0 = 5 \<and> sorted (dates summary0) \<and>
   [''20240609'', ''20240611'', ''20240612'', ''20240613'', ''20240614'', ''20240615''] =
     [''20240609''] @ dates summary0"
proof -
  have q: "arg_float float_str0 (lat_arg query0) = Some (Fin 35.5)"
    "arg_float float_str0 (lng_arg query0) = Some (Fin 139.75)"
    "date_arg query0 = Some ''2024-06-15''" "strptime0 ''2024-06-15'' = Some 739052"
    by code_simp+
  have nz: "\<not> feq (Fin 35.5) (Fin 0)" "\<not> feq (Fin 139.75) (Fin 0)" "''2024-06-15'' \<noteq> []"
    "(8 :: int) \<le> 739052"
    by simp_all
  have f: "fetch_payload (provider0 \<lparr> longitude = Fin 139.75, latitude = Fin 35.5,
      start_date = 739052 - 7, end_date = 739052 \<rparr>) =
      Inr (payload_of (JObj t2m_week) (JObj rh2m_week))"
    by (simp add: fetch_payload_def provider0_def)
  have n: "5 \<le> length [''20240609'', ''20240611'', ''20240612'', ''20240613'', ''20240614'',
      ''20240615'']"
    by simp
  show ?thesis
    using five_most_recent [where env = provider0 and sp = strptime0,
        OF q(1,2) nz(1,2) q(3) nz(3) q(4) nz(4) f series0 collect0 n]
    by (auto simp: run0 summary0_def)
qed

text \<open>
  C10: the response to a T2M series \<open>td\<close> and a humidity series \<open>hm\<close> is fixed by the
  sorted keys of \<open>td\<close> in every case. With fewer than 3 keys it is the error of line 117
  with their number and the sorted keys. Otherwise the loop visits exactly the sorted
  keys: if a value at one of them raises, the response is the server error; if not, the
  valid dates are the valid ones among the sorted keys, in that order, and the response is
  the error of line 216 with that list when it has fewer than 3 dates, and a success whose
  dates are its last five otherwise. Two humidity series that agree on the keys of \<open>td\<close>
  give the same response, whatever other dates they hold.
\<close>

theorem candidate_dates:
  "(length (keys td) < 3 \<longrightarrow>
      summarise fs td hm = (ErrInsufficientData (length (keys td)) (sort (keys td)), 500)) \<and>
   (3 \<le> length (keys td) \<and> (\<exists>d \<in> set (keys td). day_raises fs td hm d) \<longrightarrow>
      summarise fs td hm = (ErrServer, 500)) \<and>
   (3 \<le> length (keys td) \<and> (\<forall>d \<in> set (keys td). \<not> day_raises fs td hm d) \<and>
    length (filter (day_valid fs td hm) (sort (keys td))) < 3 \<longrightarrow>
      summarise fs td hm =
        (ErrInsufficientValid (length (filter (day_valid fs td hm) (sort (keys td))))
           (filter (day_valid fs td hm) (sort (keys td))), 500)) \<and>
   (3 \<le> length (keys td) \<and> (\<forall>d \<in> set (keys td). \<not> day_raises fs td hm d) \<and>
    3 \<le> length (filter (day_valid fs td hm) (sort (keys td))) \<longrightarrow>
      (\<exists>s. summarise fs td hm = (Success s, 200) \<and>
           dates s = last5 (filter (day_valid fs td hm) (sort (keys td))))) \<and>
   ((\<forall>d \<in> set (keys td). hum_lookup hm d = hum_lookup hm' d) \<longrightarrow>
      summarise fs td hm = summarise fs td hm') \<and>
   set (filter (day_valid fs td hm) (sort (keys td))) \<subseteq> set (keys td)"
proof (intro conjI impI)
  assume "length (keys td) < 3"
  then show "summarise fs td hm =
      (ErrInsufficientData (length (keys td)) (sort (keys td)), 500)"
    by (rule summarise_few)
next
  assume a: "3 \<le> length (keys td) \<and> (\<exists>d \<in> set (keys td). day_raises fs td hm d)"
  then have "\<exists>d \<in> set (sort (keys td)). day_raises fs td hm d" by simp
  from collect_raises [OF this] obtain e where
    "collect fs td hm (sort (keys td)) ([], [], []) = Inl e" by blast
  with a show "summarise fs td hm = (ErrServer, 500)"
    by (simp add: summarise_def Let_def)
next
  let ?vd = "filter (day_valid fs td hm) (sort (keys td))"
  assume a: "3 \<le> length (keys td) \<and> (\<forall>d \<in> set (keys td). \<not> day_raises fs td hm d) \<and>
      length ?vd < 3"
  then have "\<forall>d \<in> set (sort (keys td)). \<not> day_raises fs td hm d" by simp
  from collect_returns [OF this, of "[]" "[]" "[]"] obtain ts hs where
    c: "collect fs td hm (sort (keys td)) ([], [], []) = Inr (?vd, ts, hs)" by auto
  from a collect_lengths [OF c] have "length ts < 3" by simp
  from reduce_short [OF this, of ?vd hs] collect_lengths [OF c] a c
  show "summarise fs td hm = (ErrInsufficientValid (length ?vd) ?vd, 500)"
    by (simp add: summarise_def Let_def del: reduce.simps)
next
  let ?vd = "filter (day_valid fs td hm) (sort (keys td))"
  assume a: "3 \<le> length (keys td) \<and> (\<forall>d \<in> set (keys td). \<not> day_raises fs td hm d) \<and>
      3 \<le> length ?vd"
  then have "\<forall>d \<in> set (sort (keys td)). \<not> day_raises fs td hm d" by simp
  from collect_returns [OF this, of "[]" "[]" "[]"] obtain ts hs where
    c: "collect fs td hm (sort (keys td)) ([], [], []) = Inr (?vd, ts, hs)" by auto
  from a have n: "3 \<le> length ?vd" by simp
  from reduce_collect [OF c n] obtain s where
    "reduce (?vd, ts, hs) = (Success s, 200)" "dates s = last5 ?vd"
    by (auto simp del: reduce.simps py_round2.simps)
  with a c show "\<exists>s. summarise fs td hm = (Success s, 200) \<and> dates s = last5 ?vd"
    by (simp add: summarise_def Let_def del: reduce.simps)
next
  assume "\<forall>d \<in> set (keys td). hum_lookup hm d = hum_lookup hm' d"
  then have "\<forall>d \<in> set (sort (keys td)). hum_lookup hm d = hum_lookup hm' d"
    by simp
  then have "collect fs td hm (sort (keys td)) ([], [], []) =
      collect fs td hm' (sort (keys td)) ([], [], [])"
    by (rule collect_cong)
  then show "summarise fs td hm = summarise fs td hm'"
    by (simp add: summarise_def Let_def)
next
  show "set (filter (day_valid fs td hm) (sort (keys td))) \<subseteq> set (keys td)"
    by auto
qed

theorem candidate_dates_witness:
  "summarise float_str0 t2m_two (JObj rh2m_week) =
     (ErrInsufficientData 2 [''20240614'', ''20240615''], 500) \<and>
   summarise float_str0 t2m_huge (JObj rh2m_week) = (ErrServer, 500) \<and>
   summarise float_str0 t2m_week (JObj rh2m_two) =
     (ErrInsufficientValid 2 [''20240609'', ''20240615''], 500) \<and>
   (\<exists>s. summarise float_str0 t2m_week (JObj rh2m_week) = (Success s, 200) \<and>
        dates s = [''20240611'', ''20240612'', ''20240613'', ''20240614'', ''20240615'']) \<and>
   summarise float_str0 t2m_week (JObj rh2m_week) =
     summarise float_str0 t2m_week (JObj ((''20240501'', JInt 40) # rh2m_week))"
proof -
  have few: "length (keys t2m_two) < 3" "length (keys t2m_two) = 2"
    "sort (keys t2m_two) = [''20240614'', ''20240615'']"
    by code_simp+
  have huge: "3 \<le> length (keys t2m_huge)"
    "\<exists>d \<in> set (keys t2m_huge). day_raises float_str0 t2m_huge (JObj rh2m_week) d"
    by code_simp+
  have week: "3 \<le> length (keys t2m_week)"
    by code_simp
  have quiet2: "\<forall>d \<in> set (keys t2m_week). \<not> day_raises float_str0 t2m_week (JObj rh2m_two) d"
    by code_simp
  have valid2: "filter (day_valid float_str0 t2m_week (JObj rh2m_two)) (sort (keys t2m_week)) =
      [''20240609'', ''20240615'']"
    by code_simp
  have quiet: "\<forall>d \<in> set (keys t2m_week). \<not> day_raises float_str0 t2m_week (JObj rh2m_week) d"
    by code_simp
  have valid: "filter (day_valid float_str0 t2m_week (JObj rh2m_week)) (sort (keys t2m_week)) =
      [''20240609'', ''20240611'', ''20240612'', ''20240613'', ''20240614'', ''20240615'']"
    by code_simp
  have agree: "\<forall>d \<in> set (keys t2m_week).
      hum_lookup (JObj rh2m_week) d = hum_lookup (JObj ((''20240501'', JInt 40) # rh2m_week)) d"
    by code_simp
  from candidate_dates [where fs = float_str0 and td = t2m_two and hm = "JObj rh2m_week"] few
  have 1: "summarise float_str0 t2m_two (JObj rh2m_week) =
      (ErrInsufficientData 2 [''20240614'', ''20240615''], 500)"
    by simp
  from candidate_dates [where fs = float_str0 and td = t2m_huge and hm = "JObj rh2m_week"] huge
  have 2: "summarise float_str0 t2m_huge (JObj rh2m_week) = (ErrServer, 500)"
    by blast
  from candidate_dates [where fs = float_str0 and td = t2m_week and hm = "JObj rh2m_two"]
    week quiet2 valid2
  have 3: "summarise float_str0 t2m_week (JObj rh2m_two) =
      (ErrInsufficientValid 2 [''20240609'', ''20240615''], 500)"
    by simp
  from candidate_dates [where fs = float_str0 and td = t2m_week and hm = "JObj rh2m_week"]
    week quiet valid
  have 4: "\<exists>s. summarise float_str0 t2m_week (JObj rh2m_week) = (Success s, 200) \<and>
        dates s = [''20240611'', ''20240612'', ''20240613'', ''20240614'', ''20240615'']"
    by (simp add: last5_def)
  from candidate_dates [where fs = float_str0 and td = t2m_week and hm = "JObj rh2m_week"
      and hm' = "JObj ((''20240501'', JInt 40) # rh2m_week)"] agree
  have 5: "summarise float_str0 t2m_week (JObj rh2m_week) =
        summarise float_str0 t2m_week (JObj ((''20240501'', JInt 40) # rh2m_week))"
    by blast
  from 1 2 3 4 5 show ?thesis by blast
qed

text \<open>
  C7, as stated, fails: a payload whose T2M series is an empty dictionary has fewer than 3
  raw dates, but line 97 answers that the T2M data could not be obtained, with the
  parameter names and neither the count nor the dates.
\<close>

theorem insufficient_history_counterexample:
  "length (keys []) < 3 \<and>
   fst (get_nasa_power_data float_str0 strptime0 provider_empty query0) =
     (ErrNoT2M [''T2M'', ''RH2M''], 500)"
  by code_simp

text \<open>
  C7, amended: when the payload passes the shape checks of lines 81-113 (T2M is a
  non-empty dictionary, RH2M is present and non-empty) and its T2M series has 1 or 2
  dates, the handler answers HTTP 500 with the error of line 117, which carries the number
  of raw dates and the sorted dates, whatever the values are: no value is looked at before
  this check. A T2M series with no date at all is answered by the error of line 98, also
  HTTP 500, with the names of the parameters.
\<close>

theorem insufficient_history:
  assumes "snd (get_nasa_power_data fs sp env q) = [req]"
    and "fetch_payload (env req) = Inr data"
  shows "(payload_series data = Inr (td, hm) \<and> length (keys td) < 3 \<longrightarrow>
            fst (get_nasa_power_data fs sp env q) =
              (ErrInsufficientData (length (keys td)) (sort (keys td)), 500) \<and>
            1 \<le> length (keys td)) \<and>
         (data = JObj obj \<and> map_of obj ''properties'' = Some (JObj props) \<and>
          map_of props ''parameter'' = Some (JObj params) \<and>
          map_of params ''T2M'' = Some (JObj []) \<longrightarrow>
            fst (get_nasa_power_data fs sp env q) = (ErrNoT2M (keys params), 500))"
proof (intro conjI impI)
  assume a: "payload_series data = Inr (td, hm) \<and> length (keys td) < 3"
  then have ps: "payload_series data = Inr (td, hm)" and few: "length (keys td) < 3"
    by simp_all
  have "get_nasa_power_data fs sp env q = (summarise fs td hm, [req])"
    using handler_contacted [OF assms(1)] assms(2) ps by (rule handler_run)
  with summarise_few [OF few]
  show "fst (get_nasa_power_data fs sp env q) =
      (ErrInsufficientData (length (keys td)) (sort (keys td)), 500)"
    by simp
  from ps have "td \<noteq> []"
    by (auto simp: payload_series_def Let_def split: json.splits option.splits if_splits)
  then show "1 \<le> length (keys td)"
    by (cases td) (simp_all add: keys_def)
next
  assume d: "data = JObj obj \<and> map_of obj ''properties'' = Some (JObj props) \<and>
      map_of props ''parameter'' = Some (JObj params) \<and>
      map_of params ''T2M'' = Some (JObj [])"
  have "get_nasa_power_data fs sp env q = (process_payload fs data, [req])"
    using handler_contacted [OF assms(1)] assms(2) by (simp add: get_nasa_power_data_def)
  with d show "fst (get_nasa_power_data fs sp env q) = (ErrNoT2M (keys params), 500)"
    by (simp add: process_payload_def payload_series_def dict_get_def)
qed

theorem insufficient_history_witness:
  "fst (get_nasa_power_data float_str0 strptime0 provider_two query0) =
     (ErrInsufficientData 2 [''20240614'', ''20240615''], 500) \<and>
   fst (get_nasa_power_data float_str0 strptime0 provider_empty query0) =
     (ErrNoT2M [''T2M'', ''RH2M''], 500)"
proof -
  have s2: "snd (get_nasa_power_data float_str0 strptime0 provider_two query0) = [request0]"
    by code_simp
  have f2: "fetch_payload (provider_two request0) =
      Inr (payload_of (JObj t2m_two) (JObj rh2m_week))"
    by (simp add: fetch_payload_def provider_two_def)
  have p2: "payload_series (payload_of (JObj t2m_two) (JObj rh2m_week)) =
      Inr (t2m_two, JObj rh2m_week)"
    by code_simp
  have k2: "length (keys t2m_two) = 2" "sort (keys t2m_two) = [''20240614'', ''20240615'']"
    by code_simp+
  have s0: "snd (get_nasa_power_data float_str0 strptime0 provider_empty query0) = [request0]"
    by code_simp
  have f0: "fetch_payload (provider_empty request0) =
      Inr (payload_of (JObj []) (JObj rh2m_week))"
    by (simp add: fetch_payload_def provider_empty_def)
  show ?thesis
    using insufficient_history [OF s2 f2, where td = t2m_two and hm = "JObj rh2m_week"]
      insufficient_history [OF s0 f0,
        where obj = "[(''properties'',
            JObj [(''parameter'', JObj [(''T2M'', JObj []), (''RH2M'', JObj rh2m_week)])])]"
          and props = "[(''parameter'', JObj [(''T2M'', JObj []), (''RH2M'', JObj rh2m_week)])]"
          and params = "[(''T2M'', JObj []), (''RH2M'', JObj rh2m_week)]"]
      p2 k2
    by (simp add: payload_of_def keys_def)
qed

text \<open>
  C3, as stated, fails: a date that is present but does not parse is not answered with
  HTTP 400; \<^verbatim>\<open>strptime\<close> raises inside the \<^verbatim>\<open>try\<close> and line 248 answers HTTP 500.
\<close>

theorem query_validation_counterexample:
  "date_arg query_bad_date = Some ''abc'' \<and> strptime0 ''abc'' = None \<and>
   get_nasa_power_data float_str0 strptime0 provider0 query_bad_date = ((ErrServer, 500), [])"
  by code_simp

text \<open>
  C3, amended: when latitude or longitude is missing or does not parse, or the date is
  missing or empty, the handler answers HTTP 400 with the message of line 32 and sends
  nothing to the provider. When latitude and longitude parse to non-zero numbers and the
  date is not empty: a date that does not parse is answered with HTTP 500, again with
  nothing sent; a date that parses to day 8 or later of the calendar leads to exactly one
  request, for the seven days before it up to it, and the response is not the HTTP 400 of
  line 32.
\<close>

theorem query_validation:
  "(arg_float fs (lat_arg q) = None \<or> arg_float fs (lng_arg q) = None \<or>
      date_arg q = None \<or> date_arg q = Some [] \<longrightarrow>
      get_nasa_power_data fs sp env q = ((ErrRequired, 400), [])) \<and>
   (arg_float fs (lat_arg q) = Some la \<and> arg_float fs (lng_arg q) = Some lo \<and>
      \<not> feq la (Fin 0) \<and> \<not> feq lo (Fin 0) \<and> date_arg q = Some d \<and> d \<noteq> [] \<longrightarrow>
      (sp d = None \<longrightarrow> get_nasa_power_data fs sp env q = ((ErrServer, 500), [])) \<and>
      (sp d = Some e \<and> 8 \<le> e \<longrightarrow>
         snd (get_nasa_power_data fs sp env q) =
           [\<lparr> longitude = lo, latitude = la, start_date = e - 7, end_date = e \<rparr>] \<and>
         snd (fst (get_nasa_power_data fs sp env q)) \<noteq> 400 \<and>
         fst (get_nasa_power_data fs sp env q) \<noteq> (ErrRequired, 400)))"
proof (intro conjI impI)
  assume "arg_float fs (lat_arg q) = None \<or> arg_float fs (lng_arg q) = None \<or>
      date_arg q = None \<or> date_arg q = Some []"
  then have "prepare fs sp q = Inl (ErrRequired, 400)"
    by (auto simp: prepare_def not_float_def not_str_def)
  then show "get_nasa_power_data fs sp env q = ((ErrRequired, 400), [])"
    by (simp add: get_nasa_power_data_def)
next
  assume a: "arg_float fs (lat_arg q) = Some la \<and> arg_float fs (lng_arg q) = Some lo \<and>
      \<not> feq la (Fin 0) \<and> \<not> feq lo (Fin 0) \<and> date_arg q = Some d \<and> d \<noteq> []"
  then have p: "prepare fs sp q =
     (case sp d of
        None \<Rightarrow> Inl (ErrServer, 500)
      | Some e \<Rightarrow> if e - 7 < 1 then Inl (ErrServer, 500)
                  else Inr \<lparr> longitude = lo, latitude = la, start_date = e - 7, end_date = e \<rparr>)"
    by (intro prepare_ok) simp_all
  {
    assume "sp d = None"
    with p show "get_nasa_power_data fs sp env q = ((ErrServer, 500), [])"
      by (simp add: get_nasa_power_data_def)
  }
  {
    assume "sp d = Some e \<and> 8 \<le> e"
    with p have pr: "prepare fs sp q =
        Inr \<lparr> longitude = lo, latitude = la, start_date = e - 7, end_date = e \<rparr>"
      by simp
    show "snd (get_nasa_power_data fs sp env q) =
        [\<lparr> longitude = lo, latitude = la, start_date = e - 7, end_date = e \<rparr>]"
      by (simp add: get_nasa_power_data_def pr split: sum.splits)
    show st: "snd (fst (get_nasa_power_data fs sp env q)) \<noteq> 400"
      using process_payload_status [of fs]
      by (auto simp: get_nasa_power_data_def pr fetch_payload_def
          split: sum.splits http_reply.splits option.splits if_splits)
    then show "fst (get_nasa_power_data fs sp env q) \<noteq> (ErrRequired, 400)"
      by auto
  }
qed

theorem query_validation_witness:
  "get_nasa_power_data float_str0 strptime0 provider0 query_no_lng = ((ErrRequired, 400), []) \<and>
   get_nasa_power_data float_str0 strptime0 provider0 query_bad_date = ((ErrServer, 500), []) \<and>
   snd (get_nasa_power_data float_str0 strptime0 provider0 query0) = [request0] \<and>
   fst (get_nasa_power_data float_str0 strptime0 provider0 query0) \<noteq> (ErrRequired, 400)"
proof -
  have none: "arg_float float_str0 (lng_arg query_no_lng) = None"
    by code_simp
  have bad: "arg_float float_str0 (lat_arg query_bad_date) = Some (Fin 35.5)"
    "arg_float float_str0 (lng_arg query_bad_date) = Some (Fin 139.75)"
    "date_arg query_bad_date = Some ''abc''" "strptime0 ''abc'' = None"
    by code_simp+
  have good: "arg_float float_str0 (lat_arg query0) = Some (Fin 35.5)"
    "arg_float float_str0 (lng_arg query0) = Some (Fin 139.75)"
    "date_arg query0 = Some ''2024-06-15''" "strptime0 ''2024-06-15'' = Some 739052"
    by code_simp+
  have nz: "\<not> feq (Fin 35.5) (Fin 0)" "\<not> feq (Fin 139.75) (Fin 0)"
    by simp_all
  from query_validation [where fs = float_str0 and q = query_no_lng and sp = strptime0
      and env = provider0] none
  have 1: "get_nasa_power_data float_str0 strptime0 provider0 query_no_lng =
      ((ErrRequired, 400), [])"
    by blast
  from query_validation [where fs = float_str0 and q = query_bad_date and sp = strptime0
      and env = provider0 and la = "Fin 35.5" and lo = "Fin 139.75" and d = "''abc''"] bad nz
  have 2: "get_nasa_power_data float_str0 strptime0 provider0 query_bad_date =
      ((ErrServer, 500), [])"
    by simp
  from query_validation [where fs = float_str0 and q = query0 and sp = strptime0
      and env = provider0 and la = "Fin 35.5" and lo = "Fin 139.75" and d = "''2024-06-15''"
      and e = 739052] good nz
  have 3: "snd (get_nasa_power_data float_str0 strptime0 provider0 query0) = [request0] \<and>
      fst (get_nasa_power_data float_str0 strptime0 provider0 query0) \<noteq> (ErrRequired, 400)"
    by (simp add: request0_def)
  from 1 2 3 show ?thesis by blast
qed

end
